theory Spec2Isabelle
  imports Complex_Main
begin

section \<open>JavaScript values and errors\<close>

text \<open>
  The registry's loader validates data whose static type is only asserted (a parsed JSON
  document, or an object cast with \<^verbatim>\<open>as unknown as ExternalProviderConfig\<close>), so the
  validated configuration is modelled as an untyped JavaScript value. An object is the
  list of its own properties; the first binding of a name is the property's value.

  A number is \<^verbatim>\<open>NaN\<close>, an infinity or a finite value; every double is one of these, so what
  holds of all of them holds of all doubles. \<open>Finite 0\<close> is both zeros.
\<close>

datatype number = NaN | Infinity | NegInfinity | Finite rat

datatype jsval =
    JUndefined
  | JNull
  | JBool bool
  | JNum number
  | JStr string
  | JArr "jsval list"
  | JObj "(string \<times> jsval) list"

text \<open>
  Thrown values. \<^verbatim>\<open>Error\<close> is \<^verbatim>\<open>new Error(message)\<close>; \<^verbatim>\<open>TypeError\<close> is what the engine
  throws when a property of \<^verbatim>\<open>null\<close> or \<^verbatim>\<open>undefined\<close> is read, and carries the name of
  that property.
\<close>

datatype error = Error string | TypeError string

fun message :: "error \<Rightarrow> string" where
  "message (Error m) = m"
| "message (TypeError p) = ''Cannot read properties of null or undefined (reading '' @ p @ '')''"

text \<open>\<^verbatim>\<open>!v\<close> is \<open>\<not> truthy v\<close>.\<close>

fun truthy :: "jsval \<Rightarrow> bool" where
  "truthy JUndefined = False"
| "truthy JNull = False"
| "truthy (JBool b) = b"
| "truthy (JNum n) = (n \<noteq> NaN \<and> n \<noteq> Finite 0)"
| "truthy (JStr s) = (s \<noteq> [])"
| "truthy (JArr xs) = True"
| "truthy (JObj fs) = True"

fun typeof :: "jsval \<Rightarrow> string" where
  "typeof JUndefined = ''undefined''"
| "typeof JNull = ''object''"
| "typeof (JBool b) = ''boolean''"
| "typeof (JNum n) = ''number''"
| "typeof (JStr s) = ''string''"
| "typeof (JArr xs) = ''object''"
| "typeof (JObj fs) = ''object''"

fun isArray :: "jsval \<Rightarrow> bool" where
  "isArray (JArr xs) = True"
| "isArray v = False"

text \<open>
  The property read \<^verbatim>\<open>v.name\<close>. Reading from \<^verbatim>\<open>null\<close> or \<^verbatim>\<open>undefined\<close> throws; a name that
  an object does not have reads as \<^verbatim>\<open>undefined\<close>. The names read by the code below
  (\<^verbatim>\<open>providers\<close>, \<^verbatim>\<open>provider\<close>, \<^verbatim>\<open>base_url\<close>, \<^verbatim>\<open>settings\<close>, \<^verbatim>\<open>success\<close>) are not properties of
  booleans, numbers, strings or arrays, so they read as \<^verbatim>\<open>undefined\<close> there.
\<close>

fun get_prop :: "jsval \<Rightarrow> string \<Rightarrow> error + jsval" where
  "get_prop JUndefined n = Inl (TypeError n)"
| "get_prop JNull n = Inl (TypeError n)"
| "get_prop (JObj fs) n = Inr (case map_of fs n of Some v \<Rightarrow> v | None \<Rightarrow> JUndefined)"
| "get_prop v n = Inr JUndefined"

text \<open>
  \<^verbatim>\<open>Array.prototype.every\<close> with a callback that may throw: it stops at the first element
  whose test is false, and a throw of the callback leaves the loop.
\<close>

fun every :: "('a \<Rightarrow> error + bool) \<Rightarrow> 'a list \<Rightarrow> error + bool" where
  "every f [] = Inr True"
| "every f (x # xs) =
     (case f x of
        Inl e \<Rightarrow> Inl e
      | Inr b \<Rightarrow> if b then every f xs else Inr False)"

section \<open>The containers \<^verbatim>\<open>Map\<close> and \<^verbatim>\<open>Set\<close>\<close>

text \<open>
  A \<^verbatim>\<open>Map\<close> keeps its entries in insertion order; \<^verbatim>\<open>set\<close> on a key that is present replaces
  the value in place, and appends otherwise.
\<close>

fun map_set :: "'k \<Rightarrow> 'v \<Rightarrow> ('k \<times> 'v) list \<Rightarrow> ('k \<times> 'v) list" where
  "map_set k v [] = [(k, v)]"
| "map_set k v ((k', v') # m) =
     (if k' = k then (k, v) # m else (k', v') # map_set k v m)"

definition map_get :: "'k \<Rightarrow> ('k \<times> 'v) list \<Rightarrow> 'v option" where
  "map_get k m = map_of m k"

definition map_has :: "'k \<Rightarrow> ('k \<times> 'v) list \<Rightarrow> bool" where
  "map_has k m = (k \<in> set (map fst m))"

definition map_delete :: "'k \<Rightarrow> ('k \<times> 'v) list \<Rightarrow> ('k \<times> 'v) list" where
  "map_delete k m = filter (\<lambda>e. fst e \<noteq> k) m"

definition map_values :: "('k \<times> 'v) list \<Rightarrow> 'v list" where
  "map_values m = map snd m"

text \<open>A \<^verbatim>\<open>Set\<close> in insertion order: \<^verbatim>\<open>add\<close> of a member changes nothing.\<close>

definition set_add :: "'a \<Rightarrow> 'a list \<Rightarrow> 'a list" where
  "set_add x xs = (if x \<in> set xs then xs else xs @ [x])"

definition set_delete :: "'a \<Rightarrow> 'a list \<Rightarrow> 'a list" where
  "set_delete x xs = filter (\<lambda>y. y \<noteq> x) xs"

section \<open>The provider registry (\<^verbatim>\<open>src/lib/providerRegistry.ts\<close>)\<close>

text \<open>
  \<^verbatim>\<open>ProviderTemplate\<close>. The types \<^verbatim>\<open>ProviderSetting\<close>, \<^verbatim>\<open>Model\<close> and \<^verbatim>\<open>ProviderCustomHeader\<close>
  are imported from the host package; their values are kept as JavaScript values. An
  optional field that is absent is \<open>None\<close>; \<^verbatim>\<open>custom_header\<close> may also be \<^verbatim>\<open>null\<close>.
\<close>

datatype 'a nullable = Null | Value 'a

record ProviderTemplate =
  provider :: string
  active :: "bool option"
  api_key :: "string option"
  base_url :: string
  explore_models_url :: "string option"
  settings :: "jsval list"
  models :: "jsval list option"
  persist :: "bool option"
  custom_header :: "jsval list nullable option"

text \<open>
  A listener is a function object \<^verbatim>\<open>() => void\<close>. The \<^verbatim>\<open>Set\<close> compares function objects by
  reference, so a listener carries its identity; what the registry can observe of a call
  is whether it returns or throws. Listeners do not call back into the registry's mutators
  (the hook's listener only reads \<^verbatim>\<open>getRegisteredProviders\<close>).
\<close>

datatype outcome = Returns | Throws error

datatype callback = Callback (cb_id: nat) (cb_body: outcome)

text \<open>
  The two fields of the class, and the two effects a caller can observe besides them: the
  sequence of listener calls made so far, and what was written with \<^verbatim>\<open>console.error\<close>.
\<close>

record ProviderRegistry =
  externalProviders :: "(string \<times> ProviderTemplate) list"
  providerLoadCallbacks :: "callback list"
  invoked :: "callback list"
  console :: "(string \<times> error) list"

text \<open>The singleton as \<^verbatim>\<open>getInstance\<close> creates it.\<close>

definition getInstance :: ProviderRegistry where
  "getInstance =
     \<lparr>externalProviders = [], providerLoadCallbacks = [], invoked = [], console = []\<rparr>"

text \<open>
  A statement runs on the registry and completes normally or by a throw; the state it
  leaves is there in both cases.
\<close>

datatype completion = Normal | Throw error

type_synonym stmt = "ProviderRegistry \<Rightarrow> completion \<times> ProviderRegistry"

definition seq :: "stmt \<Rightarrow> stmt \<Rightarrow> stmt" where
  "seq a b s = (case a s of (Normal, s') \<Rightarrow> b s' | (Throw e, s') \<Rightarrow> (Throw e, s'))"

definition throw :: "error \<Rightarrow> stmt" where
  "throw e s = (Throw e, s)"

definition try_catch :: "stmt \<Rightarrow> (error \<Rightarrow> stmt) \<Rightarrow> stmt" where
  "try_catch a handler s =
     (case a s of (Normal, s') \<Rightarrow> (Normal, s') | (Throw e, s') \<Rightarrow> handler e s')"

fun forEach :: "('a \<Rightarrow> stmt) \<Rightarrow> 'a list \<Rightarrow> stmt" where
  "forEach f [] s = (Normal, s)"
| "forEach f (x # xs) s =
     (case f x s of (Normal, s') \<Rightarrow> forEach f xs s' | (Throw e, s') \<Rightarrow> (Throw e, s'))"

definition console_error :: "string \<Rightarrow> error \<Rightarrow> stmt" where
  "console_error msg e s = (Normal, s\<lparr>console := console s @ [(msg, e)]\<rparr>)"

text \<open>\<^verbatim>\<open>callback()\<close>: the call is made, then it returns or throws.\<close>

definition call :: "callback \<Rightarrow> stmt" where
  "call cb s =
     ((case cb_body cb of Returns \<Rightarrow> Normal | Throws e \<Rightarrow> Throw e),
      s\<lparr>invoked := invoked s @ [cb]\<rparr>)"

text \<open>The arrow function that \<^verbatim>\<open>notifyListeners\<close> passes to \<^verbatim>\<open>forEach\<close>.\<close>

definition notify_one :: "callback \<Rightarrow> stmt" where
  "notify_one callback =
     try_catch (call callback)
       (\<lambda>error. console_error ''Error in provider change callback:'' error)"

definition notifyListeners :: stmt where
  "notifyListeners s = forEach notify_one (providerLoadCallbacks s) s"

text \<open>\<^verbatim>\<open>this.externalProviders.set(provider.provider, provider)\<close>\<close>

definition set_provider :: "ProviderTemplate \<Rightarrow> stmt" where
  "set_provider p s =
     (Normal, s\<lparr>externalProviders := map_set (provider p) p (externalProviders s)\<rparr>)"

definition registerProvider :: "ProviderTemplate \<Rightarrow> stmt" where
  "registerProvider p = seq (set_provider p) notifyListeners"

definition registerProviders :: "ProviderTemplate list \<Rightarrow> stmt" where
  "registerProviders providers = seq (forEach set_provider providers) notifyListeners"

definition getRegisteredProviders :: "ProviderRegistry \<Rightarrow> ProviderTemplate list" where
  "getRegisteredProviders s = map_values (externalProviders s)"

definition getProvider :: "string \<Rightarrow> ProviderRegistry \<Rightarrow> ProviderTemplate option" where
  "getProvider providerName s = map_get providerName (externalProviders s)"

definition hasProvider :: "string \<Rightarrow> ProviderRegistry \<Rightarrow> bool" where
  "hasProvider providerName s = map_has providerName (externalProviders s)"

definition unregisterProvider :: "string \<Rightarrow> stmt" where
  "unregisterProvider providerName =
     seq (\<lambda>s. (Normal, s\<lparr>externalProviders := map_delete providerName (externalProviders s)\<rparr>))
       notifyListeners"

definition clearAll :: stmt where
  "clearAll = seq (\<lambda>s. (Normal, s\<lparr>externalProviders := []\<rparr>)) notifyListeners"

text \<open>
  \<^verbatim>\<open>onProvidersChanged\<close> adds the listener to the set and returns the closure that deletes
  it; the closure is the second component.
\<close>

definition unsubscribe :: "callback \<Rightarrow> ProviderRegistry \<Rightarrow> ProviderRegistry" where
  "unsubscribe cb s = s\<lparr>providerLoadCallbacks := set_delete cb (providerLoadCallbacks s)\<rparr>"

definition onProvidersChanged ::
  "callback \<Rightarrow> ProviderRegistry \<Rightarrow> ProviderRegistry \<times> (ProviderRegistry \<Rightarrow> ProviderRegistry)" where
  "onProvidersChanged cb s =
     (s\<lparr>providerLoadCallbacks := set_add cb (providerLoadCallbacks s)\<rparr>, unsubscribe cb)"

subsection \<open>Validation and loading\<close>

text \<open>The test applied to each element of \<^verbatim>\<open>config.providers\<close>, conjunct by conjunct.\<close>

definition valid_entry :: "jsval \<Rightarrow> error + bool" where
  "valid_entry p =
     (case get_prop p ''provider'' of
        Inl e \<Rightarrow> Inl e
      | Inr name \<Rightarrow>
          if typeof name \<noteq> ''string'' then Inr False
          else (case get_prop p ''base_url'' of
                  Inl e \<Rightarrow> Inl e
                | Inr url \<Rightarrow>
                    if typeof url \<noteq> ''string'' then Inr False
                    else (case get_prop p ''settings'' of
                            Inl e \<Rightarrow> Inl e
                          | Inr st \<Rightarrow> Inr (isArray st))))"

definition validateProviderConfig :: "jsval \<Rightarrow> error + bool" where
  "validateProviderConfig config =
     (if \<not> truthy config then Inr False
      else (case get_prop config ''providers'' of
              Inl e \<Rightarrow> Inl e
            | Inr ps \<Rightarrow>
                if \<not> isArray ps then Inr False
                else (case ps of JArr elems \<Rightarrow> every valid_entry elems | _ \<Rightarrow> Inr False)))"

text \<open>
  Once validation has passed, the elements of \<^verbatim>\<open>config.providers\<close> are handed to
  \<^verbatim>\<open>registerProviders\<close> at the type \<^verbatim>\<open>ProviderTemplate\<close>. \<open>as_template\<close> is that typed
  view of an object: the three validated fields, and each optional field where the object
  has it with its declared type. It is applied to validated elements only.
\<close>

definition field :: "jsval \<Rightarrow> string \<Rightarrow> jsval" where
  "field v n = (case get_prop v n of Inr x \<Rightarrow> x | Inl e \<Rightarrow> JUndefined)"

definition as_template :: "jsval \<Rightarrow> ProviderTemplate" where
  "as_template v =
     \<lparr>provider = (case field v ''provider'' of JStr s \<Rightarrow> s | _ \<Rightarrow> []),
      active = (case field v ''active'' of JBool b \<Rightarrow> Some b | _ \<Rightarrow> None),
      api_key = (case field v ''api_key'' of JStr s \<Rightarrow> Some s | _ \<Rightarrow> None),
      base_url = (case field v ''base_url'' of JStr s \<Rightarrow> s | _ \<Rightarrow> []),
      explore_models_url =
        (case field v ''explore_models_url'' of JStr s \<Rightarrow> Some s | _ \<Rightarrow> None),
      settings = (case field v ''settings'' of JArr xs \<Rightarrow> xs | _ \<Rightarrow> []),
      models = (case field v ''models'' of JArr xs \<Rightarrow> Some xs | _ \<Rightarrow> None),
      persist = (case field v ''persist'' of JBool b \<Rightarrow> Some b | _ \<Rightarrow> None),
      custom_header =
        (case field v ''custom_header'' of
           JArr xs \<Rightarrow> Some (Value xs) | JNull \<Rightarrow> Some Null | _ \<Rightarrow> None)\<rparr>"

definition config_providers :: "jsval \<Rightarrow> ProviderTemplate list" where
  "config_providers config =
     (case field config ''providers'' of JArr elems \<Rightarrow> map as_template elems | _ \<Rightarrow> [])"

text \<open>The steps shared by the two loaders: validate, throw or register.\<close>

definition validate_and_register :: "jsval \<Rightarrow> stmt" where
  "validate_and_register config =
     (case validateProviderConfig config of
        Inl e \<Rightarrow> throw e
      | Inr valid \<Rightarrow>
          if \<not> valid then throw (Error ''Invalid provider configuration format'')
          else registerProviders (config_providers config))"

definition loadProvidersFromConfig :: "jsval \<Rightarrow> stmt" where
  "loadProvidersFromConfig config = validate_and_register config"

text \<open>
  \<^verbatim>\<open>fetch\<close> and \<^verbatim>\<open>response.json()\<close> are the environment: a promise resolves or rejects. The
  awaits of \<^verbatim>\<open>loadProvidersFromUrl\<close> do not touch the registry, so the call is modelled on
  the state in which its continuation runs.
\<close>

datatype 'a promise = Resolved 'a | Rejected error

record response =
  ok :: bool
  statusText :: string
  json :: "jsval promise"

definition loadProvidersFromUrl :: "(string \<Rightarrow> response promise) \<Rightarrow> string \<Rightarrow> stmt" where
  "loadProvidersFromUrl fetch url =
     try_catch
       (case fetch url of
          Rejected e \<Rightarrow> throw e
        | Resolved response \<Rightarrow>
            if \<not> ok response
            then throw (Error (''Failed to fetch providers from '' @ url @ '': ''
                                 @ statusText response))
            else (case json response of
                    Rejected e \<Rightarrow> throw e
                  | Resolved config \<Rightarrow> validate_and_register config))
       (\<lambda>error. seq (console_error ''Error loading providers from URL:'' error) (throw error))"

text \<open>What \<^verbatim>\<open>notifyListeners\<close> writes to the console for a sequence of listeners.\<close>

fun logged :: "callback list \<Rightarrow> (string \<times> error) list" where
  "logged [] = []"
| "logged (cb # cbs) =
     (case cb_body cb of
        Returns \<Rightarrow> logged cbs
      | Throws e \<Rightarrow> (''Error in provider change callback:'', e) # logged cbs)"

text \<open>Every entry of the mapping sits under its own template's \<^verbatim>\<open>provider\<close>.\<close>

definition keyed :: "ProviderRegistry \<Rightarrow> bool" where
  "keyed s = (\<forall>(k, t) \<in> set (externalProviders s). provider t = k)"

text \<open>The mapping has one entry for a key, and the listeners are a set.\<close>

definition sets_ok :: "ProviderRegistry \<Rightarrow> bool" where
  "sets_ok s = (distinct (map fst (externalProviders s)) \<and> distinct (providerLoadCallbacks s))"

text \<open>
  The states of the registry: the fresh singleton, and whatever a public method leaves,
  normally or by a throw.
\<close>

inductive reachable :: "ProviderRegistry \<Rightarrow> bool" where
  init: "reachable getInstance"
| register: "reachable s \<Longrightarrow> reachable (snd (registerProvider p s))"
| register_many: "reachable s \<Longrightarrow> reachable (snd (registerProviders ps s))"
| load_config: "reachable s \<Longrightarrow> reachable (snd (loadProvidersFromConfig config s))"
| load_url: "reachable s \<Longrightarrow> reachable (snd (loadProvidersFromUrl fetch url s))"
| unregister: "reachable s \<Longrightarrow> reachable (snd (unregisterProvider n s))"
| clear: "reachable s \<Longrightarrow> reachable (snd (clearAll s))"
| subscribe: "reachable s \<Longrightarrow> reachable (fst (onProvidersChanged cb s))"
| unsubscribed: "reachable s \<Longrightarrow> reachable (unsubscribe cb s)"

section \<open>Optional fields in a request\<close>

text \<open>
  \<^verbatim>\<open>if (options.f) params.append(key, ...)\<close> for an optional field \<^verbatim>\<open>f\<close>: the guard is the
  truthiness of the field's value, and an absent field reads as \<^verbatim>\<open>undefined\<close>. One function
  for each type of field. The text of a number is made by the engine's
  \<^verbatim>\<open>Number.prototype.toString\<close>, which is a parameter \<open>toString\<close> of every function that
  prints a number.
\<close>

fun append_if_string :: "string \<Rightarrow> string option \<Rightarrow> (string \<times> string) list" where
  "append_if_string key None = []"
| "append_if_string key (Some v) = (if truthy (JStr v) then [(key, v)] else [])"

fun append_if_number ::
  "(number \<Rightarrow> string) \<Rightarrow> string \<Rightarrow> number option \<Rightarrow> (string \<times> string) list" where
  "append_if_number toString key None = []"
| "append_if_number toString key (Some n) = (if truthy (JNum n) then [(key, toString n)] else [])"

fun append_if_true :: "string \<Rightarrow> bool option \<Rightarrow> (string \<times> string) list" where
  "append_if_true key None = []"
| "append_if_true key (Some b) = (if truthy (JBool b) then [(key, ''true'')] else [])"

section \<open>Image generation (\<^verbatim>\<open>PollinationsService.generateImage\<close>)\<close>

datatype image_model = Flux | Turbo | Gptimage | Kontext | Seedream | Nanobanana | NanobananaPro

fun image_model_str :: "image_model \<Rightarrow> string" where
  "image_model_str Flux = ''flux''"
| "image_model_str Turbo = ''turbo''"
| "image_model_str Gptimage = ''gptimage''"
| "image_model_str Kontext = ''kontext''"
| "image_model_str Seedream = ''seedream''"
| "image_model_str Nanobanana = ''nanobanana''"
| "image_model_str NanobananaPro = ''nanobanana-pro''"

datatype image_quality = Low | Medium | High | Hd

fun image_quality_str :: "image_quality \<Rightarrow> string" where
  "image_quality_str Low = ''low''"
| "image_quality_str Medium = ''medium''"
| "image_quality_str High = ''high''"
| "image_quality_str Hd = ''hd''"

record ImageGenerationOptions =
  model :: "image_model option"
  width :: "number option"
  height :: "number option"
  seed :: "number option"
  enhance :: "bool option"
  negative_prompt :: "string option"
  nologo :: "bool option"
  safe :: "bool option"
  quality :: "image_quality option"
  transparent :: "bool option"
  guidance_scale :: "number option"

text \<open>
  The \<^verbatim>\<open>URLSearchParams\<close> that \<^verbatim>\<open>generateImage\<close> builds, as the sequence of its pairs, in
  the order of the eleven \<^verbatim>\<open>if\<close> statements.
\<close>

definition generateImage_params ::
  "(number \<Rightarrow> string) \<Rightarrow> ImageGenerationOptions \<Rightarrow> (string \<times> string) list" where
  "generateImage_params toString options =
     append_if_string ''model'' (map_option image_model_str (model options))
     @ append_if_number toString ''width'' (width options)
     @ append_if_number toString ''height'' (height options)
     @ append_if_number toString ''seed'' (seed options)
     @ append_if_true ''enhance'' (enhance options)
     @ append_if_string ''negative_prompt'' (negative_prompt options)
     @ append_if_true ''nologo'' (nologo options)
     @ append_if_true ''safe'' (safe options)
     @ append_if_string ''quality'' (map_option image_quality_str (quality options))
     @ append_if_true ''transparent'' (transparent options)
     @ append_if_number toString ''guidance_scale'' (guidance_scale options)"

text \<open>The default argument \<^verbatim>\<open>options = {}\<close> of \<^verbatim>\<open>generateImage\<close>.\<close>

definition no_options :: ImageGenerationOptions where
  "no_options =
     \<lparr>model = None, width = None, height = None, seed = None, enhance = None,
      negative_prompt = None, nologo = None, safe = None, quality = None,
      transparent = None, guidance_scale = None\<rparr>"

section \<open>Video generation (\<^verbatim>\<open>PollinationsService.generateVideo\<close>)\<close>

datatype video_model = Veo | Seedance | SeedancePro

fun video_model_str :: "video_model \<Rightarrow> string" where
  "video_model_str Veo = ''veo''"
| "video_model_str Seedance = ''seedance''"
| "video_model_str SeedancePro = ''seedance-pro''"

datatype aspect_ratio = Ratio16x9 | Ratio9x16

fun aspect_ratio_str :: "aspect_ratio \<Rightarrow> string" where
  "aspect_ratio_str Ratio16x9 = ''16:9''"
| "aspect_ratio_str Ratio9x16 = ''9:16''"

record VideoGenerationOptions =
  model :: "video_model option"
  duration :: "number option"
  aspectRatio :: "aspect_ratio option"
  audio :: "bool option"
  referenceImage :: "string option"

text \<open>
  The \<^verbatim>\<open>URLSearchParams\<close> that \<^verbatim>\<open>generateVideo\<close> builds; \<^verbatim>\<open>referenceImage\<close> goes under the
  key \<^verbatim>\<open>image\<close>.
\<close>

definition generateVideo_params ::
  "(number \<Rightarrow> string) \<Rightarrow> VideoGenerationOptions \<Rightarrow> (string \<times> string) list" where
  "generateVideo_params toString options =
     append_if_string ''model'' (map_option video_model_str (model options))
     @ append_if_number toString ''duration'' (duration options)
     @ append_if_string ''aspectRatio'' (map_option aspect_ratio_str (aspectRatio options))
     @ append_if_true ''audio'' (audio options)
     @ append_if_string ''image'' (referenceImage options)"

definition no_video_options :: VideoGenerationOptions where
  "no_video_options =
     \<lparr>model = None, duration = None, aspectRatio = None, audio = None, referenceImage = None\<rparr>"

section \<open>Text generation (\<^verbatim>\<open>PollinationsService.generateText\<close>)\<close>

record TextGenerationOptions =
  model :: "string option"
  temperature :: "number option"
  stream :: "bool option"
  system :: "string option"
  seed :: "number option"

text \<open>
  The object \<^verbatim>\<open>body\<close> of \<^verbatim>\<open>generateText\<close>, as the list of its properties in the order of the
  literal: \<^verbatim>\<open>model\<close> and \<^verbatim>\<open>stream\<close> are defaulted with \<^verbatim>\<open>||\<close>, \<^verbatim>\<open>temperature\<close> is copied and
  is \<^verbatim>\<open>undefined\<close> when absent, and the two spreads add \<^verbatim>\<open>system\<close> and \<^verbatim>\<open>seed\<close> when the
  field is truthy (the spread of a falsy value adds nothing).
\<close>

definition generateText_body :: "jsval \<Rightarrow> TextGenerationOptions \<Rightarrow> (string \<times> jsval) list" where
  "generateText_body messages options =
     [(''model'',
         (case model options of
            None \<Rightarrow> JStr ''openai''
          | Some m \<Rightarrow> if truthy (JStr m) then JStr m else JStr ''openai'')),
      (''messages'', messages),
      (''temperature'', (case temperature options of None \<Rightarrow> JUndefined | Some t \<Rightarrow> JNum t)),
      (''stream'',
         (case stream options of
            None \<Rightarrow> JBool False
          | Some b \<Rightarrow> if truthy (JBool b) then JBool b else JBool False))]
     @ (case system options of
          None \<Rightarrow> []
        | Some v \<Rightarrow> if truthy (JStr v) then [(''system'', JStr v)] else [])
     @ (case seed options of
          None \<Rightarrow> []
        | Some n \<Rightarrow> if truthy (JNum n) then [(''seed'', JNum n)] else [])"

text \<open>
  \<^verbatim>\<open>JSON.stringify\<close> leaves out a property whose value is \<^verbatim>\<open>undefined\<close>; these are the names
  of the properties it writes.
\<close>

definition JSON_stringify_keys :: "(string \<times> jsval) list \<Rightarrow> string list" where
  "JSON_stringify_keys props = map fst (filter (\<lambda>p. snd p \<noteq> JUndefined) props)"

definition no_text_options :: TextGenerationOptions where
  "no_text_options =
     \<lparr>model = None, temperature = None, stream = None, system = None, seed = None\<rparr>"

section \<open>The upload service (\<^verbatim>\<open>src/services/uploads/imgbb.ts\<close>)\<close>

record ImgBBUploadOptions =
  name :: "string option"
  expiration :: "number option"

record ImgBBService =
  apiKey :: string
  baseUrl :: string

text \<open>
  The constructor; its argument is the environment variable \<^verbatim>\<open>VITE_IMGBB_API_KEY\<close>,
  which may be unset.
\<close>

definition ImgBBService_new :: "string option \<Rightarrow> ImgBBService" where
  "ImgBBService_new env_key =
     \<lparr>apiKey = (case env_key of None \<Rightarrow> [] | Some k \<Rightarrow> if truthy (JStr k) then k else []),
      baseUrl = ''https://api.imgbb.com/1/upload''\<rparr>"

definition isConfigured :: "ImgBBService \<Rightarrow> bool" where
  "isConfigured this = truthy (JStr (apiKey this))"

definition setApiKey :: "string \<Rightarrow> ImgBBService \<Rightarrow> ImgBBService" where
  "setApiKey k this = this\<lparr>apiKey := k\<rparr>"

text \<open>
  A \<^verbatim>\<open>File\<close> is what \<^verbatim>\<open>FileReader.readAsDataURL\<close> makes of it: a string result, a result
  that is not a string, or a read error.
\<close>

datatype file_read = ReadString string | ReadOther | ReadError error

datatype upload_file = Base64 string | File file_read

fun split_on :: "char \<Rightarrow> string \<Rightarrow> string list" where
  "split_on c [] = [[]]"
| "split_on c (x # xs) =
     (if x = c then [] # split_on c xs
      else (case split_on c xs of w # ws \<Rightarrow> (x # w) # ws | [] \<Rightarrow> [[x]]))"

text \<open>
  \<^verbatim>\<open>fileToBase64\<close>: element 1 of the result split at commas, which is \<^verbatim>\<open>undefined\<close> (here
  \<open>None\<close>) when the result has no comma.
\<close>

fun fileToBase64 :: "file_read \<Rightarrow> string option promise" where
  "fileToBase64 (ReadString result) =
     (let parts = split_on CHR '','' result
      in Resolved (if 1 < length parts then Some (parts ! 1) else None))"
| "fileToBase64 ReadOther = Rejected (Error ''Failed to convert file to base64'')"
| "fileToBase64 (ReadError e) = Rejected e"

record request =
  url :: string
  http_method :: string
  body :: "(string \<times> string) list"

datatype event = Fetch request | ConsoleError string error

text \<open>The form: \<^verbatim>\<open>FormData.append\<close> turns \<^verbatim>\<open>undefined\<close> into the text \<^verbatim>\<open>undefined\<close>.\<close>

definition uploadFile_formData ::
  "(number \<Rightarrow> string) \<Rightarrow> ImgBBService \<Rightarrow> string option \<Rightarrow> ImgBBUploadOptions
     \<Rightarrow> (string \<times> string) list" where
  "uploadFile_formData toString this base64 options =
     [(''key'', apiKey this)]
     @ [(''image'', (case base64 of Some b \<Rightarrow> b | None \<Rightarrow> ''undefined''))]
     @ append_if_string ''name'' (name options)
     @ append_if_number toString ''expiration'' (expiration options)"

text \<open>The body of the \<^verbatim>\<open>try\<close> block, after the request has been sent.\<close>

definition uploadFile_response :: "response promise \<Rightarrow> error + jsval" where
  "uploadFile_response p =
     (case p of
        Rejected e \<Rightarrow> Inl e
      | Resolved response \<Rightarrow>
          if \<not> ok response then Inl (Error (''ImgBB upload failed: '' @ statusText response))
          else (case json response of
                  Rejected e \<Rightarrow> Inl e
                | Resolved result \<Rightarrow>
                    (case get_prop result ''success'' of
                       Inl e \<Rightarrow> Inl e
                     | Inr success \<Rightarrow>
                         if \<not> truthy success then Inl (Error ''ImgBB upload failed'')
                         else Inr result)))"

text \<open>
  \<^verbatim>\<open>uploadFile\<close> returns the promise's result and the events of the call in order: the
  requests handed to \<^verbatim>\<open>fetch\<close> and the lines written with \<^verbatim>\<open>console.error\<close>.
\<close>

definition uploadFile ::
  "(number \<Rightarrow> string) \<Rightarrow> (request \<Rightarrow> response promise) \<Rightarrow> ImgBBService \<Rightarrow> upload_file
     \<Rightarrow> ImgBBUploadOptions \<Rightarrow> (error + jsval) \<times> event list" where
  "uploadFile toString fetch this upload options =
     (if \<not> truthy (JStr (apiKey this))
      then (Inl (Error ''ImgBB API key is not configured''), [])
      else (case (case upload of Base64 s \<Rightarrow> Resolved (Some s) | File f \<Rightarrow> fileToBase64 f) of
              Rejected e \<Rightarrow> (Inl e, [])
            | Resolved base64 \<Rightarrow>
                (let req = \<lparr>url = apiKey this, http_method = ''POST'',
                            body = uploadFile_formData toString this base64 options\<rparr>
                 in (case uploadFile_response (fetch req) of
                       Inl error \<Rightarrow>
                         (Inl error, [Fetch req, ConsoleError ''Error uploading to ImgBB:'' error])
                     | Inr result \<Rightarrow> (Inr result, [Fetch req])))))"

text \<open>The requests among the events of a call.\<close>

fun requests :: "event list \<Rightarrow> request list" where
  "requests [] = []"
| "requests (Fetch r # es) = r # requests es"
| "requests (ConsoleError m e # es) = requests es"

text \<open>
  The array \<^verbatim>\<open>uploads\<close> of \<^verbatim>\<open>uploadMultiple\<close>: one call of \<^verbatim>\<open>uploadFile\<close> for each file, all
  with the same options.
\<close>

definition uploadMultiple_uploads ::
  "(number \<Rightarrow> string) \<Rightarrow> (request \<Rightarrow> response promise) \<Rightarrow> ImgBBService \<Rightarrow> upload_file list
     \<Rightarrow> ImgBBUploadOptions \<Rightarrow> ((error + jsval) \<times> event list) list" where
  "uploadMultiple_uploads toString fetch this files options =
     map (\<lambda>f. uploadFile toString fetch this f options) files"

section \<open>Values of the test suite\<close>

text \<open>
  The templates and listeners of the registry's test suite, for evaluating the model at
  concrete inputs.
\<close>

definition template :: "string \<Rightarrow> string \<Rightarrow> ProviderTemplate" where
  "template p u =
     \<lparr>provider = p, active = None, api_key = None, base_url = u, explore_models_url = None,
      settings = [], models = None, persist = None, custom_header = None\<rparr>"

definition test_provider :: ProviderTemplate where
  "test_provider = template ''test-provider'' ''https://api.test.com''"

definition provider1 :: ProviderTemplate where
  "provider1 = template ''provider1'' ''https://api.provider1.com''"

definition provider2 :: ProviderTemplate where
  "provider2 = template ''provider2'' ''https://api.provider2.com''"

definition errorCallback :: callback where
  "errorCallback = Callback 0 (Throws (Error ''Callback error''))"

definition successCallback :: callback where
  "successCallback = Callback 1 Returns"

text \<open>An upload service holding a key, and a server that answers 404.\<close>

definition imgbb :: ImgBBService where
  "imgbb = ImgBBService_new (Some ''k123'')"

definition not_found :: "request \<Rightarrow> response promise" where
  "not_found r = Resolved \<lparr>ok = False, statusText = ''Not Found'', json = Rejected (Error ''no body'')\<rparr>"

text \<open>
  The configuration \<^verbatim>\<open>{providers: [null]}\<close>, and a server that answers every URL with a given
  JSON document.
\<close>

definition null_entry_config :: jsval where
  "null_entry_config = JObj [(''providers'', JArr [JNull])]"

definition serves :: "jsval \<Rightarrow> string \<Rightarrow> response promise" where
  "serves config u = Resolved \<lparr>ok = True, statusText = ''OK'', json = Resolved config\<rparr>"

text \<open>
  A printer of numbers for evaluations: it is \<^verbatim>\<open>Number.prototype.toString\<close> on \<^verbatim>\<open>NaN\<close>, the
  infinities and the safe integers (magnitude at most two to the power 53), which print as their decimal
  digits. On the other finite numbers it gives the empty text; no evaluation below reaches
  them, and no theorem below depends on this printer except where it is named.
\<close>

fun digits :: "nat \<Rightarrow> string" where
  "digits n =
     (if n < 10 then [''0123456789'' ! n]
      else digits (n div 10) @ [''0123456789'' ! (n mod 10)])"

declare digits.simps [simp del]

definition decimal :: "number \<Rightarrow> string" where
  "decimal n =
     (case n of
        NaN \<Rightarrow> ''NaN''
      | Infinity \<Rightarrow> ''Infinity''
      | NegInfinity \<Rightarrow> ''-Infinity''
      | Finite r \<Rightarrow>
          if r = of_int \<lfloor>r\<rfloor> \<and> \<bar>r\<bar> \<le> 2 ^ 53
          then (if r < 0 then CHR ''-'' # digits (nat (- \<lfloor>r\<rfloor>)) else digits (nat \<lfloor>r\<rfloor>))
          else [])"

section \<open>What a request carries for an optional field\<close>

text \<open>
  The value sent for an optional field, read off the field alone: nothing when the field is
  absent or holds a falsy value (\<^verbatim>\<open>''\<close>, \<^verbatim>\<open>0\<close>, \<^verbatim>\<open>NaN\<close>, \<^verbatim>\<open>false\<close>), its text otherwise.
\<close>

fun sent_string :: "string option \<Rightarrow> string option" where
  "sent_string None = None"
| "sent_string (Some v) = (if v = [] then None else Some v)"

fun sent_number :: "(number \<Rightarrow> string) \<Rightarrow> number option \<Rightarrow> string option" where
  "sent_number toString None = None"
| "sent_number toString (Some n) = (if n = NaN \<or> n = Finite 0 then None else Some (toString n))"

fun sent_flag :: "bool option \<Rightarrow> string option" where
  "sent_flag None = None"
| "sent_flag (Some b) = (if b then Some ''true'' else None)"

section \<open>Properties of the containers\<close>

lemma map_of_map_set: "map_of (map_set k v m) = (map_of m)(k \<mapsto> v)"
  by (induction k v m rule: map_set.induct) (auto simp: fun_eq_iff)

lemma keys_map_set: "fst ` set (map_set k v m) = insert k (fst ` set m)"
  by (induction k v m rule: map_set.induct) auto

lemma distinct_map_set: "distinct (map fst m) \<Longrightarrow> distinct (map fst (map_set k v m))"
  by (induction k v m rule: map_set.induct) (auto simp: keys_map_set)

lemma length_map_set_present: "k \<in> fst ` set m \<Longrightarrow> length (map_set k v m) = length m"
  by (induction k v m rule: map_set.induct) auto

lemma set_map_set: "set (map_set k v m) \<subseteq> insert (k, v) (set m)"
  by (induction k v m rule: map_set.induct) auto

lemma map_get_map_set: "map_get n (map_set k v m) = (if n = k then Some v else map_get n m)"
  by (simp add: map_get_def map_of_map_set)

lemma map_has_iff_get: "map_has k m \<longleftrightarrow> map_get k m \<noteq> None"
  by (simp add: map_has_def map_get_def map_of_eq_None_iff)

lemma map_get_delete: "map_get n (map_delete k m) = (if n = k then None else map_get n m)"
  unfolding map_get_def map_delete_def
  by (induction m) auto

lemma map_delete_absent: "\<not> map_has k m \<Longrightarrow> map_delete k m = m"
  unfolding map_has_def map_delete_def
  by (induction m) auto

lemma find_snoc:
  "find P (xs @ [y]) = (case find P xs of Some x \<Rightarrow> Some x | None \<Rightarrow> if P y then Some y else None)"
  by (induction xs) simp_all

lemma map_get_fold_set:
  "map_get n (fold (\<lambda>p. map_set (provider p) p) ps m) =
     (case find (\<lambda>t. provider t = n) (rev ps) of Some t \<Rightarrow> Some t | None \<Rightarrow> map_get n m)"
proof (induction ps arbitrary: m)
  case Nil
  show ?case by simp
next
  case (Cons p ps)
  show ?case
    by (simp add: Cons.IH find_snoc map_get_map_set split: option.splits)
qed

lemma count_list_distinct: "distinct xs \<Longrightarrow> x \<in> set xs \<Longrightarrow> count_list xs x = 1"
  by (induction xs) auto

section \<open>What each mutation computes\<close>

lemma notify_one_eq:
  "notify_one cb s =
     (Normal, s\<lparr>invoked := invoked s @ [cb], console := console s @ logged [cb]\<rparr>)"
  by (cases "cb_body cb") (simp_all add: notify_one_def try_catch_def call_def console_error_def)

lemma logged_Cons: "logged (cb # cbs) = logged [cb] @ logged cbs"
  by (simp split: outcome.splits)

lemma logged_thrower: "cb \<in> set cbs \<Longrightarrow> cb_body cb = Throws e \<Longrightarrow>
    (''Error in provider change callback:'', e) \<in> set (logged cbs)"
  by (induction cbs) (auto split: outcome.splits)

lemma forEach_notify_one:
  "forEach notify_one cbs s =
     (Normal, s\<lparr>invoked := invoked s @ cbs, console := console s @ logged cbs\<rparr>)"
proof (induction cbs arbitrary: s)
  case Nil
  show ?case by simp
next
  case (Cons cb cbs)
  have "forEach notify_one (cb # cbs) s =
          forEach notify_one cbs
            (s\<lparr>invoked := invoked s @ [cb], console := console s @ logged [cb]\<rparr>)"
    by (subst forEach.simps, subst notify_one_eq) simp
  also have "\<dots> = (Normal, s\<lparr>invoked := invoked s @ cb # cbs,
                               console := console s @ logged [cb] @ logged cbs\<rparr>)"
    by (subst Cons.IH) simp
  finally show ?case
    by (simp only: logged_Cons [of cb cbs])
qed

lemma notifyListeners_eq:
  "notifyListeners s =
     (Normal, s\<lparr>invoked := invoked s @ providerLoadCallbacks s,
                console := console s @ logged (providerLoadCallbacks s)\<rparr>)"
  unfolding notifyListeners_def by (rule forEach_notify_one)

lemma forEach_set_provider:
  "forEach set_provider ps s =
     (Normal, s\<lparr>externalProviders := fold (\<lambda>p. map_set (provider p) p) ps (externalProviders s)\<rparr>)"
  by (induction ps arbitrary: s) (simp_all add: set_provider_def)

lemma registerProvider_eq:
  "registerProvider p s =
     (Normal, s\<lparr>externalProviders := map_set (provider p) p (externalProviders s),
                invoked := invoked s @ providerLoadCallbacks s,
                console := console s @ logged (providerLoadCallbacks s)\<rparr>)"
  by (simp add: registerProvider_def seq_def set_provider_def notifyListeners_eq)

lemma registerProviders_eq:
  "registerProviders ps s =
     (Normal, s\<lparr>externalProviders := fold (\<lambda>p. map_set (provider p) p) ps (externalProviders s),
                invoked := invoked s @ providerLoadCallbacks s,
                console := console s @ logged (providerLoadCallbacks s)\<rparr>)"
  by (simp add: registerProviders_def seq_def forEach_set_provider notifyListeners_eq)

lemma unregisterProvider_eq:
  "unregisterProvider n s =
     (Normal, s\<lparr>externalProviders := map_delete n (externalProviders s),
                invoked := invoked s @ providerLoadCallbacks s,
                console := console s @ logged (providerLoadCallbacks s)\<rparr>)"
  by (simp add: unregisterProvider_def seq_def notifyListeners_eq)

lemma clearAll_eq:
  "clearAll s =
     (Normal, s\<lparr>externalProviders := [],
                invoked := invoked s @ providerLoadCallbacks s,
                console := console s @ logged (providerLoadCallbacks s)\<rparr>)"
  by (simp add: clearAll_def seq_def notifyListeners_eq)

lemmas mutation_eqs = registerProvider_eq registerProviders_eq unregisterProvider_eq clearAll_eq

section \<open>Registering twice under one key\<close>

text \<open>
  Claim C2. For two templates with the same \<^verbatim>\<open>provider\<close>, \<^verbatim>\<open>registerProvider\<close> of the first and
  then of the second both complete normally; afterwards \<^verbatim>\<open>getProvider\<close> of the key returns the
  second template, the second registration has not changed the number of registered templates
  (it replaced, it did not append), and from an empty mapping \<^verbatim>\<open>getRegisteredProviders\<close> is
  exactly the second template, of length 1.
\<close>

theorem register_same_key_replaces:
  assumes "provider t1 = provider t2"
  shows "fst (registerProvider t1 s) = Normal
       \<and> fst (registerProvider t2 (snd (registerProvider t1 s))) = Normal
       \<and> getProvider (provider t2) (snd (registerProvider t2 (snd (registerProvider t1 s)))) = Some t2
       \<and> length (getRegisteredProviders (snd (registerProvider t2 (snd (registerProvider t1 s)))))
           = length (getRegisteredProviders (snd (registerProvider t1 s)))
       \<and> (getRegisteredProviders s = [] \<longrightarrow>
            getRegisteredProviders (snd (registerProvider t2 (snd (registerProvider t1 s)))) = [t2]
          \<and> length (getRegisteredProviders (snd (registerProvider t2 (snd (registerProvider t1 s))))) = 1)"
proof -
  let ?m1 = "map_set (provider t1) t1 (externalProviders s)"
  have present: "provider t2 \<in> fst ` set ?m1"
    using assms by (simp add: keys_map_set)
  have len: "length (map_set (provider t2) t2 ?m1) = length ?m1"
    by (rule length_map_set_present [OF present])
  have empty: "externalProviders s = [] \<Longrightarrow> map_set (provider t2) t2 ?m1 = [(provider t2, t2)]"
    using assms by simp
  show ?thesis
    using len empty
    by (simp add: registerProvider_eq getProvider_def getRegisteredProviders_def
        map_values_def map_get_map_set)
qed

theorem register_same_key_replaces_witness:
  "provider test_provider = provider (template ''test-provider'' ''https://api.test2.com'')
   \<and> getProvider ''test-provider''
        (snd (registerProvider (template ''test-provider'' ''https://api.test2.com'')
           (snd (registerProvider test_provider getInstance))))
       = Some (template ''test-provider'' ''https://api.test2.com'')
   \<and> length (getRegisteredProviders
        (snd (registerProvider (template ''test-provider'' ''https://api.test2.com'')
           (snd (registerProvider test_provider getInstance))))) = 1"
  using register_same_key_replaces [of test_provider
      "template ''test-provider'' ''https://api.test2.com''" getInstance]
  by (simp add: test_provider_def template_def getInstance_def getRegisteredProviders_def
      map_values_def)

section \<open>Batch registration\<close>

text \<open>
  Claim C3. For every sequence of templates, the empty one included, one call of
  \<^verbatim>\<open>registerProviders\<close> completes normally and leaves the mapping that registering the
  templates one by one, in order, leaves: a name is then bound to the last template of the
  sequence that carries it, and to what it was bound to before when the sequence has none.
  The listeners subscribed at the call are called once each, in one batch: the calls made
  are exactly the sequence of subscribed listeners, so a subscribed listener has one more
  call than before and no other listener is called.
\<close>

theorem registerProviders_batch:
  "fst (registerProviders ts s) = Normal
   \<and> externalProviders (snd (registerProviders ts s))
       = externalProviders (fold (\<lambda>t s'. snd (registerProvider t s')) ts s)
   \<and> (\<forall>n. getProvider n (snd (registerProviders ts s))
          = (case find (\<lambda>t. provider t = n) (rev ts) of
               Some t \<Rightarrow> Some t
             | None \<Rightarrow> getProvider n s))
   \<and> invoked (snd (registerProviders ts s)) = invoked s @ providerLoadCallbacks s
   \<and> (distinct (providerLoadCallbacks s) \<longrightarrow>
        (\<forall>cb \<in> set (providerLoadCallbacks s).
           count_list (invoked (snd (registerProviders ts s))) cb = count_list (invoked s) cb + 1))
   \<and> (\<forall>cb. cb \<notin> set (providerLoadCallbacks s) \<longrightarrow>
           count_list (invoked (snd (registerProviders ts s))) cb = count_list (invoked s) cb)"
proof -
  have seqs: "externalProviders (fold (\<lambda>t s'. snd (registerProvider t s')) ts s)
                = fold (\<lambda>p. map_set (provider p) p) ts (externalProviders s)" for s
    by (induction ts arbitrary: s) (simp_all add: registerProvider_eq)
  show ?thesis
    by (simp add: registerProviders_eq seqs getProvider_def map_get_fold_set
        count_list_distinct split: option.splits)
qed

theorem registerProviders_batch_witness:
  "distinct [errorCallback, successCallback]
   \<and> getProvider ''provider2''
        (snd (registerProviders [provider1, provider2]
           \<lparr>externalProviders = [], providerLoadCallbacks = [errorCallback, successCallback],
            invoked = [], console = []\<rparr>)) = Some provider2
   \<and> count_list (invoked (snd (registerProviders [provider1, provider2]
           \<lparr>externalProviders = [], providerLoadCallbacks = [errorCallback, successCallback],
            invoked = [], console = []\<rparr>))) successCallback = 1"
  using registerProviders_batch [of "[provider1, provider2]"
      "\<lparr>externalProviders = [], providerLoadCallbacks = [errorCallback, successCallback],
        invoked = [], console = []\<rparr>"]
  by (simp add: errorCallback_def successCallback_def provider1_def provider2_def template_def)

section \<open>Unregistering\<close>

text \<open>
  Claim C6. \<^verbatim>\<open>unregisterProvider(id)\<close> completes normally for every identifier. Afterwards the
  identifier is not registered and every other name is bound as before; when the identifier
  was absent the mapping is the same as before. In both cases the listeners subscribed at
  the call are called once each.
\<close>

theorem unregisterProvider_removes_and_notifies:
  "fst (unregisterProvider n s) = Normal
   \<and> \<not> hasProvider n (snd (unregisterProvider n s))
   \<and> getProvider n (snd (unregisterProvider n s)) = None
   \<and> (\<forall>m. m \<noteq> n \<longrightarrow> getProvider m (snd (unregisterProvider n s)) = getProvider m s)
   \<and> (\<not> hasProvider n s \<longrightarrow>
        externalProviders (snd (unregisterProvider n s)) = externalProviders s)
   \<and> invoked (snd (unregisterProvider n s)) = invoked s @ providerLoadCallbacks s
   \<and> (distinct (providerLoadCallbacks s) \<longrightarrow>
        (\<forall>cb \<in> set (providerLoadCallbacks s).
           count_list (invoked (snd (unregisterProvider n s))) cb = count_list (invoked s) cb + 1))"
  by (simp add: unregisterProvider_eq hasProvider_def getProvider_def map_has_iff_get
      map_get_delete map_delete_absent count_list_distinct)

theorem unregisterProvider_removes_and_notifies_witness:
  "\<not> hasProvider ''absent'' \<lparr>externalProviders = [(''provider1'', provider1)],
        providerLoadCallbacks = [successCallback], invoked = [], console = []\<rparr>
   \<and> distinct [successCallback]
   \<and> externalProviders (snd (unregisterProvider ''absent''
        \<lparr>externalProviders = [(''provider1'', provider1)],
         providerLoadCallbacks = [successCallback], invoked = [], console = []\<rparr>))
       = [(''provider1'', provider1)]
   \<and> count_list (invoked (snd (unregisterProvider ''absent''
        \<lparr>externalProviders = [(''provider1'', provider1)],
         providerLoadCallbacks = [successCallback], invoked = [], console = []\<rparr>))) successCallback = 1
   \<and> getProvider ''provider1'' (snd (unregisterProvider ''provider1''
        \<lparr>externalProviders = [(''provider1'', provider1)],
         providerLoadCallbacks = [successCallback], invoked = [], console = []\<rparr>)) = None"
  using unregisterProvider_removes_and_notifies [of "''absent''"
      "\<lparr>externalProviders = [(''provider1'', provider1)],
        providerLoadCallbacks = [successCallback], invoked = [], console = []\<rparr>"]
    unregisterProvider_removes_and_notifies [of "''provider1''"
      "\<lparr>externalProviders = [(''provider1'', provider1)],
        providerLoadCallbacks = [successCallback], invoked = [], console = []\<rparr>"]
  by (simp add: hasProvider_def map_has_def)

section \<open>A listener that throws\<close>

text \<open>
  Claim C5. Let a subscribed listener throw. Then each of the four mutations
  (\<^verbatim>\<open>registerProvider\<close>, \<^verbatim>\<open>registerProviders\<close>, \<^verbatim>\<open>unregisterProvider\<close>, \<^verbatim>\<open>clearAll\<close>) completes
  normally, so nothing propagates to its caller; the calls of its notification batch are
  all the subscribed listeners, so every other listener is called in the same batch; and
  the thrown value is written to the console.
\<close>

theorem faulty_listener_isolated:
  assumes "thrower \<in> set (providerLoadCallbacks s)"
      and "cb_body thrower = Throws e"
      and "mutation \<in> {registerProvider p, registerProviders ps, unregisterProvider n, clearAll}"
  shows "fst (mutation s) = Normal
       \<and> drop (length (invoked s)) (invoked (snd (mutation s))) = providerLoadCallbacks s
       \<and> (\<forall>other \<in> set (providerLoadCallbacks s).
             other \<in> set (drop (length (invoked s)) (invoked (snd (mutation s)))))
       \<and> (''Error in provider change callback:'', e)
             \<in> set (drop (length (console s)) (console (snd (mutation s))))"
  using assms(3) logged_thrower [OF assms(1,2)]
  by (auto simp: mutation_eqs)

theorem faulty_listener_isolated_witness:
  "errorCallback \<in> set [errorCallback, successCallback]
   \<and> cb_body errorCallback = Throws (Error ''Callback error'')
   \<and> fst (registerProvider test_provider
        \<lparr>externalProviders = [], providerLoadCallbacks = [errorCallback, successCallback],
         invoked = [], console = []\<rparr>) = Normal
   \<and> successCallback \<in> set (invoked (snd (registerProvider test_provider
        \<lparr>externalProviders = [], providerLoadCallbacks = [errorCallback, successCallback],
         invoked = [], console = []\<rparr>)))"
  using faulty_listener_isolated [of errorCallback
      "\<lparr>externalProviders = [], providerLoadCallbacks = [errorCallback, successCallback],
         invoked = [], console = []\<rparr>" "Error ''Callback error''"
      "registerProvider test_provider" test_provider "[]" "[]"]
  by (simp add: errorCallback_def)

section \<open>Subscribing one listener twice\<close>

lemma set_add_idem: "set_add x (set_add x xs) = set_add x xs"
  by (simp add: set_add_def)

lemma set_add_member: "x \<in> set (set_add x xs)"
  by (simp add: set_add_def)

lemma distinct_set_add: "distinct xs \<Longrightarrow> distinct (set_add x xs)"
  by (simp add: set_add_def)

lemma set_delete_not_member: "x \<notin> set (set_delete x xs)"
  by (simp add: set_delete_def)

lemma distinct_set_delete: "distinct xs \<Longrightarrow> distinct (set_delete x xs)"
  by (simp add: set_delete_def)

text \<open>
  Claim C4 says that two subscriptions of one listener are independent, so that the listener
  is still called after one of the two handles has been invoked. The listeners are a
  \<^verbatim>\<open>Set\<close>: on the fresh registry, after two subscriptions of \<^verbatim>\<open>successCallback\<close> and one call
  of the first handle, \<^verbatim>\<open>registerProvider\<close> calls no listener.
\<close>

theorem duplicate_subscription_counterexample:
  "successCallback \<notin> set (invoked (snd (registerProvider test_provider
      (snd (onProvidersChanged successCallback getInstance)
         (fst (onProvidersChanged successCallback
            (fst (onProvidersChanged successCallback getInstance))))))))"
  by (simp add: onProvidersChanged_def unsubscribe_def set_add_def set_delete_def
      getInstance_def registerProvider_eq)

text \<open>
  Claim C4, amended. Subscribing a listener twice leaves the set of listeners as the first
  subscription left it, with the listener in it once; each mutation then calls it once, not
  twice. Invoking either of the two handles removes the listener, so that the next mutation
  does not call it.
\<close>

theorem duplicate_subscription_is_one:
  "(let once = fst (onProvidersChanged c s);
        twice = fst (onProvidersChanged c once)
    in providerLoadCallbacks twice = providerLoadCallbacks once
     \<and> c \<in> set (providerLoadCallbacks twice)
     \<and> (distinct (providerLoadCallbacks s) \<longrightarrow> count_list (providerLoadCallbacks twice) c = 1)
     \<and> (\<forall>mutation \<in> {registerProvider p, registerProviders ps, unregisterProvider n, clearAll}.
          (distinct (providerLoadCallbacks s) \<longrightarrow>
             count_list (drop (length (invoked twice)) (invoked (snd (mutation twice)))) c = 1)
          \<and> (\<forall>handle \<in> {snd (onProvidersChanged c s), snd (onProvidersChanged c once)}.
               c \<notin> set (providerLoadCallbacks (handle twice))
             \<and> c \<notin> set (drop (length (invoked (handle twice)))
                             (invoked (snd (mutation (handle twice))))))))"
proof -
  have inv: "invoked (unsubscribe c t) = invoked t" for t
    by (simp add: unsubscribe_def)
  have gone: "c \<notin> set (providerLoadCallbacks (unsubscribe c t))" for t
    by (simp add: unsubscribe_def set_delete_not_member)
  have one: "distinct (providerLoadCallbacks s) \<Longrightarrow>
      count_list (set_add c (providerLoadCallbacks s)) c = 1"
    by (rule count_list_distinct [OF distinct_set_add set_add_member])
  show ?thesis
    using one gone
    by (auto simp: Let_def onProvidersChanged_def set_add_idem set_add_member mutation_eqs inv)
qed

theorem duplicate_subscription_is_one_witness:
  "distinct (providerLoadCallbacks getInstance)
   \<and> providerLoadCallbacks (fst (onProvidersChanged successCallback
        (fst (onProvidersChanged successCallback getInstance)))) = [successCallback]
   \<and> successCallback \<notin> set (providerLoadCallbacks
        (snd (onProvidersChanged successCallback (fst (onProvidersChanged successCallback getInstance)))
           (fst (onProvidersChanged successCallback
              (fst (onProvidersChanged successCallback getInstance))))))"
  using duplicate_subscription_is_one [of successCallback getInstance test_provider "[]" "[]"]
  by (simp add: Let_def getInstance_def onProvidersChanged_def set_add_def)

section \<open>Loading a configuration\<close>

lemma validate_and_register_cases:
  "(\<exists>e. validate_and_register config s = (Throw e, s))
   \<or> validate_and_register config s = registerProviders (config_providers config) s"
  by (simp add: validate_and_register_def throw_def split: sum.splits)

lemma validate_and_register_invalid:
  "validateProviderConfig config = Inr False \<Longrightarrow>
     validate_and_register config s = (Throw (Error ''Invalid provider configuration format''), s)"
  by (simp add: validate_and_register_def throw_def)

lemma loadProvidersFromConfig_failure_unchanged:
  "fst (loadProvidersFromConfig config s) \<noteq> Normal \<Longrightarrow> snd (loadProvidersFromConfig config s) = s"
  using validate_and_register_cases [of config s]
  by (auto simp: loadProvidersFromConfig_def registerProviders_eq)

lemma loadProvidersFromConfig_invalid:
  "validateProviderConfig config = Inr False \<Longrightarrow>
     loadProvidersFromConfig config s = (Throw (Error ''Invalid provider configuration format''), s)"
  by (simp add: loadProvidersFromConfig_def validate_and_register_invalid)

lemma validate_null: "validateProviderConfig JNull = Inr False"
  by (simp add: validateProviderConfig_def)

lemma validate_providers_not_array:
  "\<not> isArray (field config ''providers'') \<Longrightarrow> validateProviderConfig config = Inr False"
  by (cases config) (simp_all add: validateProviderConfig_def field_def)

lemma valid_entry_object:
  "valid_entry (JObj fs) =
     Inr (typeof (field (JObj fs) ''provider'') = ''string''
          \<and> typeof (field (JObj fs) ''base_url'') = ''string''
          \<and> isArray (field (JObj fs) ''settings''))"
  by (simp add: valid_entry_def field_def)

lemma every_false_element:
  assumes "\<forall>x \<in> set xs. \<exists>b. f x = Inr b" and "\<exists>x \<in> set xs. f x = Inr False"
  shows "every f xs = Inr False"
  using assms by (induction xs) (auto split: sum.splits)

lemma validate_bad_object_element:
  assumes "\<forall>p \<in> set elems. \<exists>fs. p = JObj fs"
      and "\<exists>p \<in> set elems. valid_entry p = Inr False"
  shows "validateProviderConfig (JObj [(''providers'', JArr elems)]) = Inr False"
proof -
  have "\<forall>p \<in> set elems. \<exists>b. valid_entry p = Inr b"
    using assms(1) valid_entry_object by fastforce
  then have "every valid_entry elems = Inr False"
    using assms(2) by (rule every_false_element)
  then show ?thesis
    by (simp add: validateProviderConfig_def)
qed

lemma every_throws: "every f xs = Inl e \<Longrightarrow> \<exists>x \<in> set xs. f x = Inl e"
  by (induction xs) (auto split: sum.splits if_splits)

lemma valid_entry_throws:
  "valid_entry p = Inl e \<Longrightarrow> (p = JNull \<or> p = JUndefined) \<and> e = TypeError ''provider''"
  by (cases p) (simp_all add: valid_entry_def split: if_splits)

lemma validateProviderConfig_throws:
  assumes "validateProviderConfig config = Inl e"
  shows "e = TypeError ''provider''
       \<and> (\<exists>elems. field config ''providers'' = JArr elems
                  \<and> (JNull \<in> set elems \<or> JUndefined \<in> set elems))"
proof -
  obtain elems where elems: "field config ''providers'' = JArr elems"
      and ev: "every valid_entry elems = Inl e"
    using assms
    by (cases config; cases "field config ''providers''")
       (auto simp: validateProviderConfig_def field_def split: if_splits option.splits)
  from every_throws [OF ev] obtain p where "p \<in> set elems" and "valid_entry p = Inl e"
    by blast
  with valid_entry_throws [of p e] elems show ?thesis
    by auto
qed

text \<open>
  Every failure of \<^verbatim>\<open>loadProvidersFromConfig\<close> leaves the registry as it was, and the thrown
  value is the format error unless an element of \<^verbatim>\<open>providers\<close> is \<^verbatim>\<open>null\<close> or \<^verbatim>\<open>undefined\<close>.
\<close>

lemma loadProvidersFromConfig_failure:
  assumes "loadProvidersFromConfig config s = (Throw e, s')"
  shows "s' = s
       \<and> (e = Error ''Invalid provider configuration format''
          \<or> e = TypeError ''provider''
            \<and> (\<exists>elems. field config ''providers'' = JArr elems
                       \<and> (JNull \<in> set elems \<or> JUndefined \<in> set elems)))"
proof (cases "validateProviderConfig config")
  case (Inl x)
  with assms validateProviderConfig_throws [OF Inl] show ?thesis
    by (simp add: loadProvidersFromConfig_def validate_and_register_def throw_def)
next
  case (Inr valid)
  with assms show ?thesis
    by (cases valid)
       (simp_all add: loadProvidersFromConfig_def validate_and_register_def throw_def
          registerProviders_eq)
qed

text \<open>
  Claim C1 at the configuration \<^verbatim>\<open>{providers: [null]}\<close>, whose one element has no string
  \<^verbatim>\<open>provider\<close>: the validator reads \<^verbatim>\<open>provider.provider\<close> of \<^verbatim>\<open>null\<close>, and the call fails
  with the engine's \<^verbatim>\<open>TypeError\<close>, whose message is not the format message; the registry is
  unchanged. \<^verbatim>\<open>loadProvidersFromUrl\<close> fails in the same way when that document is what the
  server returns. A \<^verbatim>\<open>null\<close> configuration, which the validator guards against, fails with
  the format message.
\<close>

theorem load_null_element_type_error:
  "loadProvidersFromConfig null_entry_config getInstance
     = (Throw (TypeError ''provider''), getInstance)
   \<and> fst (loadProvidersFromUrl (serves null_entry_config) ''https://example.com/providers.json''
           getInstance) = Throw (TypeError ''provider'')
   \<and> message (TypeError ''provider'') \<noteq> ''Invalid provider configuration format''
   \<and> loadProvidersFromConfig JNull getInstance
     = (Throw (Error ''Invalid provider configuration format''), getInstance)"
  by (simp add: loadProvidersFromConfig_def loadProvidersFromUrl_def serves_def
      null_entry_config_def validate_and_register_def validateProviderConfig_def
      valid_entry_def throw_def try_catch_def seq_def console_error_def)

section \<open>Reachable states hold sets\<close>

text \<open>
  In every state that the public methods produce, no key occurs twice in the mapping and
  no listener twice among the listeners.
\<close>

lemma distinct_fold_set:
  "distinct (map fst m) \<Longrightarrow> distinct (map fst (fold (\<lambda>p. map_set (provider p) p) ps m))"
  by (induction ps arbitrary: m) (simp_all add: distinct_map_set)

lemma distinct_map_delete: "distinct (map fst m) \<Longrightarrow> distinct (map fst (map_delete k m))"
  by (simp add: map_delete_def distinct_map_filter)

lemma sets_ok_validate_and_register:
  "sets_ok s \<Longrightarrow> sets_ok (snd (validate_and_register config s))"
  using validate_and_register_cases [of config s]
  by (auto simp: sets_ok_def registerProviders_eq distinct_fold_set)

lemma sets_ok_loadProvidersFromUrl:
  assumes "sets_ok s"
  shows "sets_ok (snd (loadProvidersFromUrl fetch addr s))"
proof -
  have handler: "sets_ok t \<Longrightarrow> sets_ok (snd (seq (console_error m e) (throw e) t))" for t m e
    by (simp add: seq_def console_error_def throw_def sets_ok_def)
  have wrap: "sets_ok (snd (a s)) \<Longrightarrow>
      sets_ok (snd (try_catch a
        (\<lambda>error. seq (console_error ''Error loading providers from URL:'' error) (throw error)) s))"
    for a
    using handler by (auto simp: try_catch_def split: prod.splits completion.splits)
  show ?thesis
    unfolding loadProvidersFromUrl_def
    by (rule wrap)
       (auto simp: throw_def assms sets_ok_validate_and_register split: promise.splits)
qed

lemma reachable_sets_ok: "reachable s \<Longrightarrow> sets_ok s"
proof (induction rule: reachable.induct)
  case init
  show ?case by (simp add: sets_ok_def getInstance_def)
next
  case (load_config s config)
  then show ?case
    by (simp add: loadProvidersFromConfig_def sets_ok_validate_and_register)
next
  case (load_url s fetch addr)
  then show ?case by (simp add: sets_ok_loadProvidersFromUrl)
qed (simp_all add: sets_ok_def mutation_eqs distinct_map_set distinct_fold_set
      distinct_map_delete onProvidersChanged_def unsubscribe_def distinct_set_add
      distinct_set_delete)

section \<open>Entries are keyed by their own provider\<close>

lemma keyed_map_set:
  assumes "\<forall>(k, t) \<in> set m. provider t = k"
  shows "\<forall>(k, t) \<in> set (map_set (provider p) p m). provider t = k"
  using assms set_map_set [of "provider p" p m] by auto

lemma keyed_fold:
  "\<forall>(k, t) \<in> set m. provider t = k \<Longrightarrow>
     \<forall>(k, t) \<in> set (fold (\<lambda>p. map_set (provider p) p) ps m). provider t = k"
proof (induction ps arbitrary: m)
  case Nil
  then show ?case by simp
next
  case (Cons p ps)
  show ?case
    using Cons.IH [OF keyed_map_set [OF Cons.prems, of p]] by simp
qed

lemma keyed_registerProvider: "keyed s \<Longrightarrow> keyed (snd (registerProvider p s))"
  unfolding keyed_def using keyed_map_set by (simp add: registerProvider_eq)

lemma keyed_registerProviders: "keyed s \<Longrightarrow> keyed (snd (registerProviders ps s))"
  unfolding keyed_def using keyed_fold by (simp add: registerProviders_eq)

lemma keyed_unregisterProvider: "keyed s \<Longrightarrow> keyed (snd (unregisterProvider n s))"
  unfolding keyed_def by (auto simp: unregisterProvider_eq map_delete_def)

lemma keyed_clearAll: "keyed (snd (clearAll s))"
  unfolding keyed_def by (simp add: clearAll_eq)

lemma keyed_validate_and_register: "keyed s \<Longrightarrow> keyed (snd (validate_and_register config s))"
  using validate_and_register_cases [of config s] keyed_registerProviders [of s]
  by auto

lemma keyed_loadProvidersFromConfig: "keyed s \<Longrightarrow> keyed (snd (loadProvidersFromConfig config s))"
  by (simp add: loadProvidersFromConfig_def keyed_validate_and_register)

lemma keyed_console: "keyed (s\<lparr>console := c\<rparr>) = keyed s"
  by (simp add: keyed_def)

lemma keyed_loadProvidersFromUrl:
  assumes "keyed s"
  shows "keyed (snd (loadProvidersFromUrl fetch addr s))"
proof -
  have handler: "keyed t \<Longrightarrow>
      keyed (snd (seq (console_error m e) (throw e) t))" for t m e
    by (simp add: seq_def console_error_def throw_def keyed_console)
  have wrap: "keyed (snd (a s)) \<Longrightarrow>
      keyed (snd (try_catch a
        (\<lambda>error. seq (console_error ''Error loading providers from URL:'' error) (throw error)) s))"
    for a
    using handler by (auto simp: try_catch_def split: prod.splits completion.splits)
  show ?thesis
    unfolding loadProvidersFromUrl_def
    by (rule wrap)
       (auto simp: throw_def assms keyed_validate_and_register split: promise.splits)
qed

lemma keyed_subscribe: "keyed (fst (onProvidersChanged cb s)) = keyed s"
  by (simp add: keyed_def onProvidersChanged_def)

lemma keyed_unsubscribe: "keyed (unsubscribe cb s) = keyed s"
  by (simp add: keyed_def unsubscribe_def)

lemma reachable_keyed: "reachable s \<Longrightarrow> keyed s"
proof (induction rule: reachable.induct)
  case init
  show ?case by (simp add: keyed_def getInstance_def)
qed (simp_all add: keyed_registerProvider keyed_registerProviders keyed_loadProvidersFromConfig
      keyed_loadProvidersFromUrl keyed_unregisterProvider keyed_clearAll keyed_subscribe
      keyed_unsubscribe)

text \<open>
  Claim C10. Every state that the public methods can produce from the fresh registry is
  keyed: each entry sits under its template's \<^verbatim>\<open>provider\<close>. From any keyed state, each of
  \<^verbatim>\<open>registerProvider\<close>, \<^verbatim>\<open>registerProviders\<close>, \<^verbatim>\<open>loadProvidersFromConfig\<close>,
  \<^verbatim>\<open>loadProvidersFromUrl\<close>, \<^verbatim>\<open>unregisterProvider\<close> and \<^verbatim>\<open>clearAll\<close> leaves a keyed state, whether
  it completes normally or throws; and in a keyed state a template that \<^verbatim>\<open>getProvider(n)\<close>
  returns has \<^verbatim>\<open>provider\<close> equal to \<^verbatim>\<open>n\<close>. \<^verbatim>\<open>hasProvider(n)\<close> is true exactly when
  \<^verbatim>\<open>getProvider(n)\<close> returns a template.
\<close>

theorem registry_keyed_by_provider:
  "(reachable s \<longrightarrow> keyed s)
   \<and> (keyed s \<longrightarrow>
        keyed (snd (registerProvider p s))
      \<and> keyed (snd (registerProviders ps s))
      \<and> keyed (snd (loadProvidersFromConfig config s))
      \<and> keyed (snd (loadProvidersFromUrl fetch addr s))
      \<and> keyed (snd (unregisterProvider n s))
      \<and> keyed (snd (clearAll s))
      \<and> (\<forall>name t. getProvider name s = Some t \<longrightarrow> provider t = name))
   \<and> (\<forall>name. hasProvider name s \<longleftrightarrow> (\<exists>t. getProvider name s = Some t))"
proof -
  have lookup: "keyed s \<Longrightarrow> getProvider name s = Some t \<Longrightarrow> provider t = name" for name t
    unfolding keyed_def getProvider_def map_get_def
    by (auto dest: map_of_SomeD)
  show ?thesis
    using lookup
    by (auto simp: reachable_keyed keyed_registerProvider keyed_registerProviders
        keyed_loadProvidersFromConfig keyed_loadProvidersFromUrl keyed_unregisterProvider
        keyed_clearAll hasProvider_def getProvider_def map_has_iff_get)
qed

theorem registry_keyed_by_provider_witness:
  "reachable (snd (registerProvider provider1 getInstance))
   \<and> keyed (snd (registerProvider provider1 getInstance))
   \<and> getProvider ''provider1'' (snd (registerProvider provider1 getInstance)) = Some provider1
   \<and> provider provider1 = ''provider1''
   \<and> hasProvider ''provider1'' (snd (registerProvider provider1 getInstance))
   \<and> keyed (snd (registerProvider provider2 (snd (registerProvider provider1 getInstance))))"
proof -
  have r: "reachable (snd (registerProvider provider1 getInstance))"
    by (rule reachable.register [OF reachable.init])
  have g: "getProvider ''provider1'' (snd (registerProvider provider1 getInstance)) = Some provider1"
    by (simp add: registerProvider_eq getProvider_def map_get_def getInstance_def
        provider1_def template_def)
  show ?thesis
    using r g registry_keyed_by_provider
      [of "snd (registerProvider provider1 getInstance)" provider2 "[]" JNull
          "\<lambda>u. Rejected (Error ''offline'')" "[]" "[]"]
    by (auto simp: provider1_def template_def)
qed

section \<open>Optional fields of a request\<close>

lemma map_of_append_if_string:
  "map_of (append_if_string key v @ rest) k =
     (if k = key \<and> sent_string v \<noteq> None then sent_string v else map_of rest k)"
  by (cases v) simp_all

lemma map_of_append_if_number:
  "map_of (append_if_number toString key v @ rest) k =
     (if k = key \<and> sent_number toString v \<noteq> None then sent_number toString v
      else map_of rest k)"
  by (cases v) simp_all

lemma map_of_append_if_true:
  "map_of (append_if_true key v @ rest) k =
     (if k = key \<and> sent_flag v \<noteq> None then sent_flag v else map_of rest k)"
  by (cases v) simp_all

lemma map_of_last_number:
  "map_of (append_if_number toString key v) k =
     (if k = key then sent_number toString v else None)"
  by (cases v) simp_all

lemma map_of_last_string:
  "map_of (append_if_string key v) k = (if k = key then sent_string v else None)"
  by (cases v) simp_all

lemmas map_of_appends =
  map_of_append_if_string map_of_append_if_number map_of_append_if_true map_of_last_number
  map_of_last_string

lemma image_model_str_truthy: "image_model_str m \<noteq> []"
  by (cases m) simp_all

lemma image_quality_str_truthy: "image_quality_str q \<noteq> []"
  by (cases q) simp_all

lemma video_model_str_truthy: "video_model_str m \<noteq> []"
  by (cases m) simp_all

lemma aspect_ratio_str_truthy: "aspect_ratio_str r \<noteq> []"
  by (cases r) simp_all

lemma sent_string_nonempty:
  "(\<And>x. f x \<noteq> []) \<Longrightarrow> sent_string (map_option f m) = map_option f m"
  by (cases m) simp_all

lemmas literal_sent =
  sent_string_nonempty [of image_model_str, OF image_model_str_truthy]
  sent_string_nonempty [of image_quality_str, OF image_quality_str_truthy]
  sent_string_nonempty [of video_model_str, OF video_model_str_truthy]
  sent_string_nonempty [of aspect_ratio_str, OF aspect_ratio_str_truthy]

lemma uploadFile_configured:
  assumes "apiKey this \<noteq> []"
      and "(case upload of Base64 s \<Rightarrow> Resolved (Some s) | File f \<Rightarrow> fileToBase64 f) = Resolved b"
  shows "requests (snd (uploadFile toString fetch this upload options))
           = [\<lparr>url = apiKey this, http_method = ''POST'',
               body = uploadFile_formData toString this b options\<rparr>]"
  using assms by (simp add: uploadFile_def Let_def split: sum.splits)

lemma uploadFile_requests:
  "requests (snd (uploadFile toString fetch this upload options)) = []
   \<or> (\<exists>b. requests (snd (uploadFile toString fetch this upload options))
           = [\<lparr>url = apiKey this, http_method = ''POST'',
               body = uploadFile_formData toString this b options\<rparr>])"
  by (auto simp: uploadFile_def Let_def split: promise.splits sum.splits upload_file.splits)

lemma formData_name:
  "map_of (uploadFile_formData toString this b options) ''name'' = sent_string (name options)"
  by (simp add: uploadFile_formData_def map_of_appends del: map_of_append)

lemma formData_expiration:
  "map_of (uploadFile_formData toString this b options) ''expiration''
     = sent_number toString (expiration options)"
  by (simp add: uploadFile_formData_def map_of_appends del: map_of_append)

lemma uploadFile_sends_fields:
  assumes "apiKey this \<noteq> []"
      and "(case upload of Base64 s \<Rightarrow> Resolved (Some s) | File f \<Rightarrow> fileToBase64 f) = Resolved b"
  shows "map (\<lambda>req. (map_of (body req) ''name'', map_of (body req) ''expiration''))
           (requests (snd (uploadFile toString fetch this upload options)))
         = [(sent_string (name options), sent_number toString (expiration options))]"
  by (simp add: uploadFile_configured [OF assms] formData_name formData_expiration)

lemma decimal_values:
  "decimal (Finite 0) = ''0''" "decimal (Finite 42) = ''42''" "decimal (Finite 3600) = ''3600''"
  by code_simp+

lemma text_body_keys:
  "JSON_stringify_keys (generateText_body messages t) =
     [''model'']
     @ (if messages = JUndefined then [] else [''messages''])
     @ (if temperature t = None then [] else [''temperature''])
     @ [''stream'']
     @ (if sent_string (system t) = None then [] else [''system''])
     @ (case TextGenerationOptions.seed t of
          None \<Rightarrow> []
        | Some n \<Rightarrow> if n = NaN \<or> n = Finite 0 then [] else [''seed''])"
  by (simp add: JSON_stringify_keys_def generateText_body_def split: option.splits)

text \<open>
  Claim C7 says that a field that is present is serialized whatever it holds, and that an
  absent field is omitted. With \<^verbatim>\<open>seed = 0\<close> the query of \<^verbatim>\<open>generateImage\<close> has no \<^verbatim>\<open>seed\<close>;
  with \<^verbatim>\<open>duration = 0\<close> the query of \<^verbatim>\<open>generateVideo\<close> has no \<^verbatim>\<open>duration\<close>; with
  \<^verbatim>\<open>expiration = 0\<close> the form that \<^verbatim>\<open>uploadFile\<close> posts has the fields \<^verbatim>\<open>key\<close> and \<^verbatim>\<open>image\<close> only;
  and with no options at all the body of \<^verbatim>\<open>generateText\<close> has \<^verbatim>\<open>model\<close>, set to \<^verbatim>\<open>openai\<close>.
\<close>

theorem falsy_option_counterexample:
  "''seed'' \<notin> fst ` set (generateImage_params decimal
                           (no_options\<lparr>ImageGenerationOptions.seed := Some (Finite 0)\<rparr>))
   \<and> ''duration'' \<notin> fst ` set (generateVideo_params decimal
                                  (no_video_options\<lparr>duration := Some (Finite 0)\<rparr>))
   \<and> requests (snd (uploadFile decimal not_found imgbb (Base64 ''aGk='')
                      \<lparr>name = None, expiration = Some (Finite 0)\<rparr>))
       = [\<lparr>url = ''k123'', http_method = ''POST'',
           body = [(''key'', ''k123''), (''image'', ''aGk='')]\<rparr>]
   \<and> map_of (generateText_body (JArr []) no_text_options) ''model'' = Some (JStr ''openai'')"
  by (simp add: generateImage_params_def no_options_def generateVideo_params_def
      no_video_options_def generateText_body_def no_text_options_def
      uploadFile_def imgbb_def ImgBBService_new_def not_found_def Let_def
      uploadFile_response_def uploadFile_formData_def)

text \<open>
  Claim C7, amended. For every options structure, and whatever text the engine's
  \<^verbatim>\<open>Number.prototype.toString\<close> gives for a number:

  \<^item> each of the eleven query parameters of \<^verbatim>\<open>generateImage\<close> and of the five of
    \<^verbatim>\<open>generateVideo\<close> is in the query exactly when its field is present with a truthy
    value, with the text of that value; a field that is absent, or present with \<^verbatim>\<open>0\<close>,
    \<^verbatim>\<open>NaN\<close>, \<^verbatim>\<open>false\<close> or the empty string, is omitted;
  \<^item> a configured \<^verbatim>\<open>uploadFile\<close> whose file converts sends exactly one request, and its
    form has \<^verbatim>\<open>name\<close> and \<^verbatim>\<open>expiration\<close> under the same rule; \<^verbatim>\<open>uploadMultiple\<close> does so
    once for each file;
  \<^item> the body of \<^verbatim>\<open>generateText\<close> has \<^verbatim>\<open>system\<close> and \<^verbatim>\<open>seed\<close> under the same rule, always
    has \<^verbatim>\<open>model\<close> (the field when truthy, \<^verbatim>\<open>openai\<close> otherwise) and \<^verbatim>\<open>stream\<close> (true only
    when the field is true), and its \<^verbatim>\<open>temperature\<close> is the field as given, so that
    \<^verbatim>\<open>JSON.stringify\<close> writes it exactly when it is present, also when it is \<^verbatim>\<open>0\<close>.
\<close>

theorem options_serialized_when_truthy:
  "map_of (generateImage_params toString options) ''model''
       = map_option image_model_str (ImageGenerationOptions.model options)
   \<and> map_of (generateImage_params toString options) ''width'' = sent_number toString (width options)
   \<and> map_of (generateImage_params toString options) ''height''
       = sent_number toString (height options)
   \<and> map_of (generateImage_params toString options) ''seed''
       = sent_number toString (ImageGenerationOptions.seed options)
   \<and> map_of (generateImage_params toString options) ''enhance'' = sent_flag (enhance options)
   \<and> map_of (generateImage_params toString options) ''negative_prompt''
       = sent_string (negative_prompt options)
   \<and> map_of (generateImage_params toString options) ''nologo'' = sent_flag (nologo options)
   \<and> map_of (generateImage_params toString options) ''safe'' = sent_flag (safe options)
   \<and> map_of (generateImage_params toString options) ''quality''
       = map_option image_quality_str (quality options)
   \<and> map_of (generateImage_params toString options) ''transparent''
       = sent_flag (transparent options)
   \<and> map_of (generateImage_params toString options) ''guidance_scale''
       = sent_number toString (guidance_scale options)
   \<and> map_of (generateVideo_params toString video) ''model''
       = map_option video_model_str (VideoGenerationOptions.model video)
   \<and> map_of (generateVideo_params toString video) ''duration''
       = sent_number toString (duration video)
   \<and> map_of (generateVideo_params toString video) ''aspectRatio''
       = map_option aspect_ratio_str (aspectRatio video)
   \<and> map_of (generateVideo_params toString video) ''audio'' = sent_flag (audio video)
   \<and> map_of (generateVideo_params toString video) ''image''
       = sent_string (referenceImage video)
   \<and> (apiKey this \<noteq> [] \<longrightarrow>
        map (\<lambda>req. (map_of (body req) ''name'', map_of (body req) ''expiration''))
          (requests (snd (uploadFile toString fetch this (Base64 s) upload_options)))
        = [(sent_string (name upload_options), sent_number toString (expiration upload_options))])
   \<and> (apiKey this \<noteq> [] \<and> fileToBase64 f = Resolved b \<longrightarrow>
        map (\<lambda>req. (map_of (body req) ''name'', map_of (body req) ''expiration''))
          (requests (snd (uploadFile toString fetch this (File f) upload_options)))
        = [(sent_string (name upload_options), sent_number toString (expiration upload_options))])
   \<and> (apiKey this \<noteq> [] \<longrightarrow>
        map (\<lambda>run. map (\<lambda>req. (map_of (body req) ''name'', map_of (body req) ''expiration''))
                     (requests (snd run)))
          (uploadMultiple_uploads toString fetch this (map Base64 ss) upload_options)
        = map (\<lambda>s. [(sent_string (name upload_options),
                      sent_number toString (expiration upload_options))]) ss)
   \<and> map_of (generateText_body messages topts) ''system''
       = map_option JStr (sent_string (system topts))
   \<and> map_of (generateText_body messages topts) ''seed''
       = (case TextGenerationOptions.seed topts of
            None \<Rightarrow> None
          | Some n \<Rightarrow> if n = NaN \<or> n = Finite 0 then None else Some (JNum n))
   \<and> map_of (generateText_body messages topts) ''model''
       = Some (JStr (case sent_string (TextGenerationOptions.model topts) of
                       None \<Rightarrow> ''openai'' | Some m \<Rightarrow> m))
   \<and> map_of (generateText_body messages topts) ''stream'' = Some (JBool (stream topts = Some True))
   \<and> map_of (generateText_body messages topts) ''temperature''
       = Some (case temperature topts of None \<Rightarrow> JUndefined | Some t \<Rightarrow> JNum t)
   \<and> JSON_stringify_keys (generateText_body messages topts)
       = [''model'']
         @ (if messages = JUndefined then [] else [''messages''])
         @ (if temperature topts = None then [] else [''temperature''])
         @ [''stream'']
         @ (if sent_string (system topts) = None then [] else [''system''])
         @ (case TextGenerationOptions.seed topts of
              None \<Rightarrow> []
            | Some n \<Rightarrow> if n = NaN \<or> n = Finite 0 then [] else [''seed''])"
proof -
  have img:
    "map_of (generateImage_params toString options) ''model''
       = map_option image_model_str (ImageGenerationOptions.model options)"
    "map_of (generateImage_params toString options) ''width'' = sent_number toString (width options)"
    "map_of (generateImage_params toString options) ''height''
       = sent_number toString (height options)"
    "map_of (generateImage_params toString options) ''seed''
       = sent_number toString (ImageGenerationOptions.seed options)"
    "map_of (generateImage_params toString options) ''enhance'' = sent_flag (enhance options)"
    "map_of (generateImage_params toString options) ''negative_prompt''
       = sent_string (negative_prompt options)"
    "map_of (generateImage_params toString options) ''nologo'' = sent_flag (nologo options)"
    "map_of (generateImage_params toString options) ''safe'' = sent_flag (safe options)"
    "map_of (generateImage_params toString options) ''quality''
       = map_option image_quality_str (quality options)"
    "map_of (generateImage_params toString options) ''transparent''
       = sent_flag (transparent options)"
    "map_of (generateImage_params toString options) ''guidance_scale''
       = sent_number toString (guidance_scale options)"
    by (simp_all add: generateImage_params_def map_of_appends literal_sent del: map_of_append)
  have vid:
    "map_of (generateVideo_params toString video) ''model''
       = map_option video_model_str (VideoGenerationOptions.model video)"
    "map_of (generateVideo_params toString video) ''duration''
       = sent_number toString (duration video)"
    "map_of (generateVideo_params toString video) ''aspectRatio''
       = map_option aspect_ratio_str (aspectRatio video)"
    "map_of (generateVideo_params toString video) ''audio'' = sent_flag (audio video)"
    "map_of (generateVideo_params toString video) ''image''
       = sent_string (referenceImage video)"
    by (simp_all add: generateVideo_params_def map_of_appends literal_sent del: map_of_append)
  have up1: "apiKey this \<noteq> [] \<longrightarrow>
        map (\<lambda>req. (map_of (body req) ''name'', map_of (body req) ''expiration''))
          (requests (snd (uploadFile toString fetch this (Base64 s) upload_options)))
        = [(sent_string (name upload_options), sent_number toString (expiration upload_options))]"
    for s
    using uploadFile_sends_fields [of this "Base64 s" "Some s"] by simp
  have up2: "apiKey this \<noteq> [] \<and> fileToBase64 f = Resolved b \<longrightarrow>
        map (\<lambda>req. (map_of (body req) ''name'', map_of (body req) ''expiration''))
          (requests (snd (uploadFile toString fetch this (File f) upload_options)))
        = [(sent_string (name upload_options), sent_number toString (expiration upload_options))]"
    using uploadFile_sends_fields [of this "File f" b] by simp
  have up3: "apiKey this \<noteq> [] \<longrightarrow>
        map (\<lambda>run. map (\<lambda>req. (map_of (body req) ''name'', map_of (body req) ''expiration''))
                     (requests (snd run)))
          (uploadMultiple_uploads toString fetch this (map Base64 ss) upload_options)
        = map (\<lambda>s. [(sent_string (name upload_options),
                      sent_number toString (expiration upload_options))]) ss"
    using up1 by (simp add: uploadMultiple_uploads_def comp_def)
  have body_props:
    "map_of (generateText_body messages topts) ''system''
       = map_option JStr (sent_string (system topts))"
    "map_of (generateText_body messages topts) ''seed''
       = (case TextGenerationOptions.seed topts of
            None \<Rightarrow> None
          | Some n \<Rightarrow> if n = NaN \<or> n = Finite 0 then None else Some (JNum n))"
    "map_of (generateText_body messages topts) ''model''
       = Some (JStr (case sent_string (TextGenerationOptions.model topts) of
                       None \<Rightarrow> ''openai'' | Some m \<Rightarrow> m))"
    "map_of (generateText_body messages topts) ''stream'' = Some (JBool (stream topts = Some True))"
    "map_of (generateText_body messages topts) ''temperature''
       = Some (case temperature topts of None \<Rightarrow> JUndefined | Some t \<Rightarrow> JNum t)"
    by (simp_all add: generateText_body_def split: option.splits)
  show ?thesis
    using img vid up1 up2 up3 body_props text_body_keys [of messages topts] by blast
qed

theorem options_serialized_when_truthy_witness:
  "apiKey imgbb \<noteq> []
   \<and> fileToBase64 (ReadString ''data:image/png;base64,aGk='') = Resolved (Some ''aGk='')
   \<and> map_of (generateImage_params decimal
        (no_options\<lparr>ImageGenerationOptions.seed := Some (Finite 42), enhance := Some False\<rparr>))
        ''seed'' = Some ''42''
   \<and> map_of (generateImage_params decimal
        (no_options\<lparr>ImageGenerationOptions.seed := Some (Finite 42), enhance := Some False\<rparr>))
        ''enhance'' = None
   \<and> map_of (generateVideo_params decimal
        (no_video_options\<lparr>duration := Some (Finite 0), audio := Some True\<rparr>)) ''duration'' = None
   \<and> map_of (generateVideo_params decimal
        (no_video_options\<lparr>duration := Some (Finite 0), audio := Some True\<rparr>)) ''audio''
       = Some ''true''
   \<and> map (\<lambda>req. (map_of (body req) ''name'', map_of (body req) ''expiration''))
        (requests (snd (uploadFile decimal not_found imgbb (Base64 ''aGk='')
                          \<lparr>name = Some ''cat'', expiration = Some (Finite 3600)\<rparr>)))
       = [(Some ''cat'', Some ''3600'')]
   \<and> map (\<lambda>req. (map_of (body req) ''name'', map_of (body req) ''expiration''))
        (requests (snd (uploadFile decimal not_found imgbb
                          (File (ReadString ''data:image/png;base64,aGk=''))
                          \<lparr>name = Some [], expiration = Some (Finite 0)\<rparr>)))
       = [(None, None)]
   \<and> JSON_stringify_keys
        (generateText_body (JArr []) (no_text_options\<lparr>temperature := Some (Finite 0)\<rparr>))
       = [''model'', ''messages'', ''temperature'', ''stream'']"
proof -
  have key: "apiKey imgbb \<noteq> []"
    by (simp add: imgbb_def ImgBBService_new_def)
  have read: "fileToBase64 (ReadString ''data:image/png;base64,aGk='') = Resolved (Some ''aGk='')"
    by (simp add: Let_def)
  show ?thesis
    using key read
      options_serialized_when_truthy
        [where toString = decimal
           and options = "no_options\<lparr>ImageGenerationOptions.seed := Some (Finite 42),
                                      enhance := Some False\<rparr>"
           and video = "no_video_options\<lparr>duration := Some (Finite 0), audio := Some True\<rparr>"
           and this = imgbb and fetch = not_found and s = "''aGk=''"
           and upload_options = "\<lparr>name = Some ''cat'', expiration = Some (Finite 3600)\<rparr>"
           and messages = "JArr []"
           and topts = "no_text_options\<lparr>temperature := Some (Finite 0)\<rparr>"]
      options_serialized_when_truthy
        [where toString = decimal and this = imgbb and fetch = not_found
           and f = "ReadString ''data:image/png;base64,aGk=''" and b = "Some ''aGk=''"
           and upload_options = "\<lparr>name = Some [], expiration = Some (Finite 0)\<rparr>"]
    by (simp add: no_options_def no_video_options_def no_text_options_def decimal_values)
qed

section \<open>The upload request\<close>

lemma uploadFile_request_url:
  "\<forall>req \<in> set (requests (snd (uploadFile toString fetch this upload options))).
     url req = apiKey this \<and> http_method req = ''POST''"
  using uploadFile_requests [of toString fetch this upload options] by auto

text \<open>
  Claim C8 at a service holding the key \<^verbatim>\<open>k123\<close>, a base64 string and no options: the one
  request of \<^verbatim>\<open>uploadFile\<close> is a POST of the form to the URL \<^verbatim>\<open>k123\<close>, the service's key,
  while the service's \<^verbatim>\<open>baseUrl\<close> is \<^verbatim>\<open>https://api.imgbb.com/1/upload\<close>.
\<close>

theorem upload_posts_to_api_key:
  "requests (snd (uploadFile decimal not_found imgbb (Base64 ''aGk='')
                    \<lparr>name = None, expiration = None\<rparr>))
     = [\<lparr>url = ''k123'', http_method = ''POST'',
         body = [(''key'', ''k123''), (''image'', ''aGk='')]\<rparr>]
   \<and> baseUrl imgbb = ''https://api.imgbb.com/1/upload''
   \<and> apiKey imgbb = ''k123''"
  by (simp add: uploadFile_def imgbb_def ImgBBService_new_def not_found_def Let_def
      uploadFile_response_def uploadFile_formData_def)

text \<open>
  Claim C9. \<^verbatim>\<open>isConfigured\<close> is false exactly when the key is empty, and then \<^verbatim>\<open>uploadFile\<close>
  fails with the error \<^verbatim>\<open>ImgBB API key is not configured\<close> for every file and options, with
  no event before it: no request is handed to \<^verbatim>\<open>fetch\<close>.
\<close>

theorem unconfigured_upload_fails_first:
  "(isConfigured this \<longleftrightarrow> apiKey this \<noteq> [])
   \<and> (\<not> isConfigured this \<longrightarrow>
        uploadFile toString fetch this upload options
          = (Inl (Error ''ImgBB API key is not configured''), [])
      \<and> requests (snd (uploadFile toString fetch this upload options)) = [])"
  by (simp add: isConfigured_def uploadFile_def)

theorem unconfigured_upload_fails_first_witness:
  "\<not> isConfigured (ImgBBService_new None)
   \<and> uploadFile decimal not_found (ImgBBService_new None) (Base64 ''aGk='')
        \<lparr>name = Some ''cat'', expiration = Some (Finite 3600)\<rparr>
      = (Inl (Error ''ImgBB API key is not configured''), [])"
  using unconfigured_upload_fails_first [of "ImgBBService_new None" decimal not_found
      "Base64 ''aGk=''" "\<lparr>name = Some ''cat'', expiration = Some (Finite 3600)\<rparr>"]
  by (simp add: ImgBBService_new_def isConfigured_def)

end
